theory Spec2Isabelle
  imports Complex_Main "HOL-Library.Word"
begin

section \<open>Data model\<close>

text \<open>
  The download engine of paradl, as far as the Chunk Manager, the Control Store and the
  File Writer go. JavaScript numbers that hold byte counts, offsets and indices are
  modelled as \<open>int\<close>: all of them are integers far below \<open>2^53\<close>, where the
  double-precision \<open>Math.floor(a / b)\<close> and \<open>Math.ceil(a / b)\<close> agree with the exact
  integer quotients. Division by zero, where JavaScript yields \<open>Infinity\<close> and HOL yields
  \<open>0\<close>, is written out at its one occurrence.
\<close>

datatype seg_status = Pending | Downloading | Completed | Failed

record segment =
  index :: int
  startByte :: int
  endByte :: int
  downloadedBytes :: int
  status :: seg_status

datatype file_allocation = AllocNone | Trunc | Prealloc | Falloc

type_synonym byte = "8 word"

text \<open>
  \<open>SegmentWriter\<close> holds \<open>fileHandle: FileHandle | null\<close>; the model keeps whether the
  handle is open. The Chunk Manager's \<open>writer: SegmentWriter | null\<close> is an option of it.
\<close>

type_synonym segment_writer = bool

record ChunkManagerOptions =
  opt_segmentSize :: int
  opt_maxSplits :: int
  opt_totalSize :: int
  opt_outputPath :: string
  opt_fileAllocation :: file_allocation
  opt_resumeDownloads :: bool
  opt_alwaysResume :: bool
  opt_urls :: "string list"

record chunk_manager =
  segments :: "segment list"
  cm_downloadedBytes :: int
  segmentSize :: int
  maxSplits :: int
  totalSize :: int
  outputPath :: string
  fileAllocation :: file_allocation
  resumeDownloads :: bool
  alwaysResume :: bool
  urls :: "string list"
  startTime :: int
  writer :: "segment_writer option"

text \<open>The constructor of \<open>ChunkManager\<close>; it raises \<open>maxSplits\<close> to at least 1.\<close>

definition ChunkManager_new :: "ChunkManagerOptions \<Rightarrow> chunk_manager" where
  "ChunkManager_new opts =
     \<lparr> segments = [],
       cm_downloadedBytes = 0,
       segmentSize = opt_segmentSize opts,
       maxSplits = max 1 (opt_maxSplits opts),
       totalSize = opt_totalSize opts,
       outputPath = opt_outputPath opts,
       fileAllocation = opt_fileAllocation opts,
       resumeDownloads = opt_resumeDownloads opts,
       alwaysResume = opt_alwaysResume opts,
       urls = opt_urls opts,
       startTime = 0,
       writer = None \<rparr>"

section \<open>Fresh segmentation\<close>

text \<open>
  \<open>Math.max(1, Math.floor(totalSize / segmentSize))\<close>. For \<open>segmentSize = 0\<close> and
  \<open>totalSize > 0\<close> the JavaScript quotient is \<open>Infinity\<close>, here \<open>None\<close>, and the
  \<open>Math.min(maxSplits, \<dots>)\<close> that follows is \<open>maxSplits\<close>. For \<open>segmentSize = 0\<close> and
  \<open>totalSize \<le> 0\<close> it is \<open>-Infinity\<close>, whose maximum with 1 is 1 as in HOL, or \<open>NaN\<close>
  (\<open>0 / 0\<close>), where the loop below does not run and the value is not used.
\<close>

definition maxSegmentsBySize :: "int \<Rightarrow> int \<Rightarrow> int option" where
  "maxSegmentsBySize tsize segSz =
     (if segSz = 0 \<and> 0 < tsize then None else Some (max 1 (tsize div segSz)))"

definition targetSegments :: "chunk_manager \<Rightarrow> int" where
  "targetSegments cm =
     max 1 (case maxSegmentsBySize (totalSize cm) (segmentSize cm) of
              None \<Rightarrow> maxSplits cm
            | Some bySize \<Rightarrow> min (maxSplits cm) bySize)"

text \<open>\<open>Math.ceil(totalSize / targetSegments)\<close>, for a divisor that is at least 1.\<close>

definition ceil_div :: "int \<Rightarrow> int \<Rightarrow> int" where
  "ceil_div a b = - ((- a) div b)"

definition nominalWidth :: "chunk_manager \<Rightarrow> int" where
  "nominalWidth cm = ceil_div (totalSize cm) (targetSegments cm)"

text \<open>
  The \<open>while (startByte < this.totalSize)\<close> loop of \<open>createSegments\<close>, with the list
  being pushed to as accumulator. Nothing in the loop itself makes \<open>startByte\<close> grow
  (a width below 1 would not), so it is a partial function: \<open>None\<close> stands for a loop
  that does not end.
\<close>

partial_function (option) createSegments_loop ::
  "int \<Rightarrow> int \<Rightarrow> int \<Rightarrow> int \<Rightarrow> segment list \<Rightarrow> segment list option" where
  "createSegments_loop tsize width sb idx segs =
     (if sb < tsize then
        createSegments_loop tsize width
          (min (sb + width - 1) (tsize - 1) + 1) (idx + 1)
          (segs @ [\<lparr> index = idx, startByte = sb,
                     endByte = min (sb + width - 1) (tsize - 1),
                     downloadedBytes = 0, status = Pending \<rparr>])
      else Some segs)"

declare createSegments_loop.simps [code]

definition createSegments :: "chunk_manager \<Rightarrow> chunk_manager option" where
  "createSegments cm =
     map_option (\<lambda>segs. cm\<lparr> segments := segs, cm_downloadedBytes := 0 \<rparr>)
       (createSegments_loop (totalSize cm) (nominalWidth cm) 0 0 [])"

text \<open>\<open>fullSize = segment.endByte - segment.startByte + 1\<close>, as the source computes it.\<close>

definition fullSize :: "segment \<Rightarrow> int" where
  "fullSize s = endByte s - startByte s + 1"

section \<open>The disk: output file and control file\<close>

record ControlFileData =
  version :: string
  cf_urls :: "string list"
  cf_filename :: string
  cf_outputPath :: string
  cf_totalSize :: int
  cf_downloadedBytes :: "int option"
  cf_segments :: "segment list option"
  createdAt :: int
  lastModified :: int

text \<open>
  \<open>ControlFileData\<close> is what \<open>JSON.parse\<close> returns, cast without validation:
  \<open>cf_downloadedBytes\<close> is \<open>None\<close> unless the field is a number, \<open>cf_segments\<close> is
  \<open>None\<close> when the field is missing or not an array. The two timestamps are kept as
  instants instead of their ISO strings. A control file whose text does not parse (or
  parses to a falsy value) is \<open>Unparsable\<close>.
\<close>

datatype control_content = Unparsable | Parsed ControlFileData

text \<open>
  The task builds its \<open>ControlFile\<close> as \<open>new ControlFile(outputPath)\<close>, whose path is
  the output path followed by \<open>.paradl\<close>: both files live in one directory. The disk is
  that directory: missing (and then creatable by \<open>mkdir\<close> or not), or present with the
  two files, each there or not. A failing \<open>mkdir\<close> is the one I/O failure the model has.
\<close>

record directory =
  outFile :: "byte list option"
  ctrlFile :: "control_content option"

datatype disk = NoDir bool | Dir directory

datatype error =
    ResumeRequired | ResumeInvalid | ResumeMismatch | IOError
  | SegmentNotFound | WriterNotInitialized | FileNotOpen | NoSegmentAvailable | NetworkError

text \<open>
  The three \<open>throw new Error\<close> of the Chunk Manager's initialization are told apart by
  their messages: \<open>ResumeRequired\<close> is "Resume required but control file is missing",
  \<open>ResumeInvalid\<close> is "Resume required but control data is invalid", and
  \<open>ResumeMismatch\<close> is "Resume required but saved segment size does not match current
  file size". \<open>SegmentNotFound\<close>, \<open>WriterNotInitialized\<close>, \<open>FileNotOpen\<close> and
  \<open>NoSegmentAvailable\<close> are the other \<open>throw new Error\<close> of the write path and of the
  task; \<open>NetworkError\<close> is any error of a response stream that is not an abort.
  An asynchronous method either returns or throws, in a changed world.
\<close>

datatype outcome = Returned | Threw error

type_synonym world = "chunk_manager \<times> disk"

text \<open>\<open>mkdir(dir, { recursive: true })\<close>: no effect and no error on a directory that exists.\<close>

definition mkdir :: "disk \<Rightarrow> directory option" where
  "mkdir d = (case d of
       NoDir creatable \<Rightarrow>
         (if creatable then Some \<lparr> outFile = None, ctrlFile = None \<rparr> else None)
     | Dir dir \<Rightarrow> Some dir)"

subsection \<open>Control Store\<close>

definition ControlFile_save :: "ControlFileData \<Rightarrow> disk \<Rightarrow> disk option" where
  "ControlFile_save data d =
     map_option (\<lambda>dir. Dir (dir\<lparr> ctrlFile := Some (Parsed data) \<rparr>)) (mkdir d)"

text \<open>
  \<open>load\<close> reads the file and parses it; every failure becomes \<open>null\<close>. It looks at no
  field of the parsed value.
\<close>

definition ControlFile_load :: "disk \<Rightarrow> ControlFileData option" where
  "ControlFile_load d = (case d of
       NoDir _ \<Rightarrow> None
     | Dir dir \<Rightarrow> (case ctrlFile dir of
           None \<Rightarrow> None
         | Some Unparsable \<Rightarrow> None
         | Some (Parsed data) \<Rightarrow> Some data))"

definition ControlFile_exists :: "disk \<Rightarrow> bool" where
  "ControlFile_exists d = (case d of NoDir _ \<Rightarrow> False | Dir dir \<Rightarrow> ctrlFile dir \<noteq> None)"

text \<open>\<open>delete\<close> ignores a file that is not there.\<close>

definition ControlFile_delete :: "disk \<Rightarrow> disk" where
  "ControlFile_delete d = (case d of
       NoDir c \<Rightarrow> NoDir c
     | Dir dir \<Rightarrow> Dir (dir\<lparr> ctrlFile := None \<rparr>))"

subsection \<open>File Writer\<close>

definition SegmentWriter_exists :: "disk \<Rightarrow> bool \<times> int" where
  "SegmentWriter_exists d = (case d of
       NoDir _ \<Rightarrow> (False, 0)
     | Dir dir \<Rightarrow> (case outFile dir of
           None \<Rightarrow> (False, 0)
         | Some bytes \<Rightarrow> (True, int (length bytes))))"

text \<open>\<open>fileHandle.truncate(size)\<close>: cut, or extend with zero bytes.\<close>

definition fileTruncate :: "int \<Rightarrow> byte list \<Rightarrow> byte list" where
  "fileTruncate len bytes = take (nat len) bytes @ replicate (nat len - length bytes) 0"

text \<open>
  \<open>open\<close>: the directory is made, the file is opened in place (\<open>r+\<close>) when it exists
  and created empty (\<open>w\<close>) otherwise, and then sized as the allocation method says.
  \<open>prealloc\<close> truncates and then writes zeros over the whole of \<open>[0, size)\<close>.
\<close>

definition SegmentWriter_open :: "int \<Rightarrow> file_allocation \<Rightarrow> disk \<Rightarrow> disk option" where
  "SegmentWriter_open len allocation d =
     (case mkdir d of
        None \<Rightarrow> None
      | Some dir \<Rightarrow>
          (let existing = (case outFile dir of None \<Rightarrow> [] | Some bytes \<Rightarrow> bytes);
               content = (case allocation of
                   Trunc \<Rightarrow> fileTruncate len existing
                 | Prealloc \<Rightarrow> replicate (nat len) 0
                 | Falloc \<Rightarrow> fileTruncate len existing
                 | AllocNone \<Rightarrow> existing)
           in Some (Dir (dir\<lparr> outFile := Some content \<rparr>))))"

text \<open>
  \<open>fileHandle.write(data, 0, data.length, position)\<close>: a positional write, which
  extends a shorter file with zero bytes up to \<open>position\<close>.
\<close>

definition writeAt :: "nat \<Rightarrow> byte list \<Rightarrow> byte list \<Rightarrow> byte list" where
  "writeAt pos data bytes =
     take pos (bytes @ replicate (pos - length bytes) 0) @ data @ drop (pos + length data) bytes"

definition SegmentWriter_writeSegment :: "int \<Rightarrow> byte list \<Rightarrow> disk \<Rightarrow> disk" where
  "SegmentWriter_writeSegment position data d = (case d of
       NoDir c \<Rightarrow> NoDir c
     | Dir dir \<Rightarrow>
         Dir (dir\<lparr> outFile := Some (writeAt (nat position) data
                (case outFile dir of None \<Rightarrow> [] | Some bytes \<Rightarrow> bytes)) \<rparr>))"

section \<open>Chunk Manager\<close>

text \<open>\<open>outputPath.split("/").pop() || ""\<close>: what follows the last slash.\<close>

definition basename :: "string \<Rightarrow> string" where
  "basename path = rev (takeWhile (\<lambda>c. c \<noteq> CHR ''/'') (rev path))"

definition controlRecord :: "int \<Rightarrow> chunk_manager \<Rightarrow> ControlFileData" where
  "controlRecord now cm =
     \<lparr> version = ''1.0'',
       cf_urls = urls cm,
       cf_filename = basename (outputPath cm),
       cf_outputPath = outputPath cm,
       cf_totalSize = totalSize cm,
       cf_downloadedBytes = None,
       cf_segments = Some (segments cm),
       createdAt = now,
       lastModified = now \<rparr>"

definition saveProgress :: "int \<Rightarrow> world \<Rightarrow> outcome \<times> world" where
  "saveProgress now w = (case w of (cm, d) \<Rightarrow>
     (if resumeDownloads cm then
        (case ControlFile_save (controlRecord now cm) d of
           None \<Rightarrow> (Threw IOError, cm, d)
         | Some d' \<Rightarrow> (Returned, cm, d'))
      else (Returned, cm, d)))"

definition initWriter :: "world \<Rightarrow> outcome \<times> world" where
  "initWriter w = (case w of (cm, d) \<Rightarrow>
     (case SegmentWriter_open (totalSize cm) (fileAllocation cm) d of
        None \<Rightarrow> (Threw IOError, cm\<lparr> writer := Some False \<rparr>, d)
      | Some d' \<Rightarrow> (Returned, cm\<lparr> writer := Some True \<rparr>, d')))"

text \<open>The function mapped over the loaded segments by \<open>loadResumeData\<close>.\<close>

definition normalizeSegment :: "segment \<Rightarrow> segment" where
  "normalizeSegment s =
     (let normalizedBytes = max 0 (min (downloadedBytes s) (fullSize s));
          completed = (normalizedBytes \<ge> fullSize s)
      in s\<lparr> downloadedBytes := normalizedBytes,
             status := (if completed then Completed else Pending) \<rparr>)"

text \<open>
  \<open>validateSegmentSizes\<close> sums the spans of the segments as they were loaded. The two
  \<open>reduce\<close> calls of the source, sums from 0, are \<open>sum_list\<close>.
\<close>

definition validateSegmentSizes ::
  "segment list \<Rightarrow> chunk_manager \<Rightarrow> (outcome \<times> chunk_manager) option" where
  "validateSegmentSizes loaded cm =
     (let expectedTotalSize = sum_list (map fullSize loaded)
      in if expectedTotalSize = totalSize cm then Some (Returned, cm)
         else if alwaysResume cm then Some (Threw ResumeMismatch, cm)
         else map_option (\<lambda>cm'. (Returned, cm'\<lparr> cm_downloadedBytes := 0 \<rparr>))
                (createSegments cm))"

definition hasValidSegments :: "ControlFileData \<Rightarrow> bool" where
  "hasValidSegments resumeData =
     (case cf_segments resumeData of None \<Rightarrow> False | Some segs \<Rightarrow> segs \<noteq> [])"

definition loadResumeData ::
  "ControlFileData \<Rightarrow> chunk_manager \<Rightarrow> (outcome \<times> chunk_manager) option" where
  "loadResumeData resumeData cm =
     (if \<not> hasValidSegments resumeData then
        (if alwaysResume cm then Some (Threw ResumeInvalid, cm)
         else map_option (Pair Returned) (createSegments cm))
      else
        (let loaded = (case cf_segments resumeData of None \<Rightarrow> [] | Some segs \<Rightarrow> segs);
             cm1 = cm\<lparr> segments := map normalizeSegment loaded \<rparr>;
             resumedBytes = sum_list (map downloadedBytes (segments cm1));
             cm2 = cm1\<lparr> cm_downloadedBytes :=
                     (case cf_downloadedBytes resumeData of
                        Some b \<Rightarrow> max 0 (min b (totalSize cm1))
                      | None \<Rightarrow> resumedBytes) \<rparr>
         in validateSegmentSizes loaded cm2))"

text \<open>
  \<open>initialize\<close>. \<open>now\<close> is the clock reading; \<open>None\<close> is an initialization that
  does not end (the segmentation loop).
\<close>

definition resumeRequiredCheck :: "chunk_manager \<Rightarrow> disk \<Rightarrow> bool" where
  "resumeRequiredCheck cm d =
     (let existingFile = SegmentWriter_exists d;
          controlFileExists = (if resumeDownloads cm then ControlFile_exists d else False)
      in resumeDownloads cm \<and> alwaysResume cm \<and> fst existingFile \<and> snd existingFile > 0
         \<and> \<not> controlFileExists)"

definition initialize :: "int \<Rightarrow> world \<Rightarrow> (outcome \<times> world) option" where
  "initialize now w = (case w of (cm, d) \<Rightarrow>
     (case mkdir d of
        None \<Rightarrow> Some (Threw IOError, cm, d)
      | Some dir \<Rightarrow>
          (if resumeRequiredCheck cm (Dir dir) then Some (Threw ResumeRequired, cm, Dir dir)
           else
             (case initWriter (cm, Dir dir) of
                (Threw e, w') \<Rightarrow> Some (Threw e, w')
              | (Returned, cm1, d1) \<Rightarrow>
                  (let resumeData = (if resumeDownloads cm1 then ControlFile_load d1 else None)
                   in (case (case resumeData of
                               Some data \<Rightarrow> loadResumeData data cm1
                             | None \<Rightarrow> map_option (Pair Returned) (createSegments cm1)) of
                         None \<Rightarrow> None
                       | Some (Threw e, cm2) \<Rightarrow> Some (Threw e, cm2, d1)
                       | Some (Returned, cm2) \<Rightarrow>
                           (let cm3 = cm2\<lparr> startTime := now \<rparr>
                            in if resumeDownloads cm3 then Some (saveProgress now (cm3, d1))
                               else Some (Returned, cm3, d1))))))))"

text \<open>
  \<open>this.segments[index]\<close>: \<open>undefined\<close> for an index that is negative or not below the
  length, which every caller tests with \<open>if (segment)\<close>.
\<close>

definition segmentAt :: "chunk_manager \<Rightarrow> int \<Rightarrow> segment option" where
  "segmentAt cm i =
     (if 0 \<le> i \<and> i < int (length (segments cm)) then Some (segments cm ! nat i) else None)"

definition markSegmentDownloading :: "int \<Rightarrow> chunk_manager \<Rightarrow> chunk_manager" where
  "markSegmentDownloading i cm = (case segmentAt cm i of
       None \<Rightarrow> cm
     | Some seg \<Rightarrow> cm\<lparr> segments := (segments cm)[nat i := seg\<lparr> status := Downloading \<rparr>] \<rparr>)"

definition updateSegmentProgress :: "int \<Rightarrow> int \<Rightarrow> chunk_manager \<Rightarrow> chunk_manager" where
  "updateSegmentProgress i bytes cm = (case segmentAt cm i of
       None \<Rightarrow> cm
     | Some seg \<Rightarrow>
         (let delta = bytes - downloadedBytes seg
          in cm\<lparr> segments := (segments cm)[nat i := seg\<lparr> downloadedBytes := bytes \<rparr>],
                 cm_downloadedBytes := cm_downloadedBytes cm + delta \<rparr>))"

definition markSegmentCompleted :: "int \<Rightarrow> int \<Rightarrow> world \<Rightarrow> outcome \<times> world" where
  "markSegmentCompleted now i w = (case w of (cm, d) \<Rightarrow>
     saveProgress now
       ((case segmentAt cm i of
           None \<Rightarrow> cm
         | Some seg \<Rightarrow>
             (let delta = fullSize seg - downloadedBytes seg
              in cm\<lparr> segments := (segments cm)[nat i :=
                        seg\<lparr> status := Completed, downloadedBytes := fullSize seg \<rparr>],
                     cm_downloadedBytes :=
                        (if delta \<noteq> 0 then cm_downloadedBytes cm + delta
                         else cm_downloadedBytes cm) \<rparr>)), d))"

definition markSegmentFailed :: "int \<Rightarrow> chunk_manager \<Rightarrow> chunk_manager" where
  "markSegmentFailed i cm = (case segmentAt cm i of
       None \<Rightarrow> cm
     | Some seg \<Rightarrow> cm\<lparr> segments := (segments cm)[nat i := seg\<lparr> status := Failed \<rparr>] \<rparr>)"

definition getNextPendingSegment :: "chunk_manager \<Rightarrow> segment option" where
  "getNextPendingSegment cm = find (\<lambda>s. status s = Pending) (segments cm)"

definition isComplete :: "chunk_manager \<Rightarrow> bool" where
  "isComplete cm = list_all (\<lambda>s. status s = Completed) (segments cm)"

text \<open>
  \<open>getProgress\<close> divides: its quotients are modelled as real numbers, the values the
  double-precision results approximate.
\<close>

record DownloadProgress =
  totalBytes :: int
  p_downloadedBytes :: int
  percent :: real
  speed :: real
  eta :: real

definition getProgress :: "int \<Rightarrow> chunk_manager \<Rightarrow> DownloadProgress" where
  "getProgress now cm =
     (let clampedDownloaded = min (cm_downloadedBytes cm) (totalSize cm);
          elapsedSeconds = real_of_int (now - startTime cm) / 1000;
          spd = (if elapsedSeconds > 0 then real_of_int clampedDownloaded / elapsedSeconds else 0);
          remainingBytes = max 0 (totalSize cm - clampedDownloaded);
          et = (if spd > 0 then real_of_int remainingBytes / spd else 0);
          pct = (if totalSize cm > 0
                 then (real_of_int clampedDownloaded / real_of_int (totalSize cm)) * 100 else 0)
      in \<lparr> totalBytes = totalSize cm,
           p_downloadedBytes = clampedDownloaded,
           percent = min pct 100,
           speed = spd,
           eta = et \<rparr>)"

text \<open>\<open>SegmentWriter.close\<close> releases the handle when there is one.\<close>

definition cleanup :: "bool \<Rightarrow> world \<Rightarrow> world" where
  "cleanup success w = (case w of (cm, d) \<Rightarrow>
     (cm\<lparr> writer := map_option (\<lambda>_. False) (writer cm) \<rparr>,
      if success \<and> resumeDownloads cm then ControlFile_delete d else d))"

definition writeSegmentChunk :: "int \<Rightarrow> int \<Rightarrow> byte list \<Rightarrow> world \<Rightarrow> outcome \<times> world" where
  "writeSegmentChunk i offset chunk w = (case w of (cm, d) \<Rightarrow>
     (case segmentAt cm i of
        None \<Rightarrow> (Threw SegmentNotFound, cm, d)
      | Some seg \<Rightarrow>
          (case writer cm of
             None \<Rightarrow> (Threw WriterNotInitialized, cm, d)
           | Some handleOpen \<Rightarrow>
               (if \<not> handleOpen then (Threw FileNotOpen, cm, d)
                else (Returned, cm, SegmentWriter_writeSegment (startByte seg + offset) chunk d)))))"

section \<open>Download Task\<close>

text \<open>
  The task, from the construction of its Chunk Manager on. What \<open>start\<close> does before
  (the URL list, the size probe) is not modelled: a failure there leaves
  \<open>chunkManager\<close> null, and then neither the \<open>catch\<close> nor the \<open>finally\<close> block touches
  the Chunk Manager. The task's \<open>options.resumeDownloads\<close> is the value it passes to its
  Chunk Manager. Progress snapshots and emitted events observe the state and are left out.
  \<open>queued\<close> holds the positions, in the segment list, of the segments whose fetch has
  been added to the per-task queue and has not run yet.
\<close>

datatype task_status =
  TaskPending | TaskDownloading | TaskPaused | TaskCompleted | TaskFailed | TaskCancelled

record download_task =
  chunkManager :: chunk_manager
  info_status :: task_status
  isPaused :: bool
  isCancelled :: bool
  queued :: "nat list"

type_synonym task_world = "download_task \<times> disk"

definition pause :: "download_task \<Rightarrow> download_task" where
  "pause t = t\<lparr> isPaused := True, info_status := TaskPaused \<rparr>"

definition resume :: "download_task \<Rightarrow> download_task" where
  "resume t = t\<lparr> isPaused := False, info_status := TaskDownloading \<rparr>"

text \<open>\<open>cancel\<close> also aborts the signal: \<open>signal.aborted\<close> is \<open>isCancelled\<close>.\<close>

definition cancel :: "download_task \<Rightarrow> download_task" where
  "cancel t = t\<lparr> isCancelled := True, info_status := TaskCancelled \<rparr>"

text \<open>
  What the network and the user do is an input. A response stream delivers chunks, the
  user may call \<open>cancel\<close> while it is read, and it ends normally or with an error, which is
  abort-like (\<open>AbortError\<close>, \<open>ABORT_ERR\<close>, \<open>ERR_CANCELED\<close>) or not. While \<open>start\<close>
  awaits, queued fetches run and the user calls \<open>pause\<close>, \<open>resume\<close> or \<open>cancel\<close>; queued
  fetches run one after the other, each to its end (the default
  \<open>maxConnectionsPerServer\<close> is 1).
\<close>

datatype stream_event = Chunk "byte list" | CancelCalled

datatype stream_end = EndOfStream | StreamError bool

type_synonym fetch = "stream_event list \<times> stream_end"

datatype wait_event = RunJob fetch | UserPause | UserResume | UserCancel

record environment =
  supportsRange :: bool
  singleFetch :: fetch
  waits :: "wait_event list list"

text \<open>
  \<open>consumeStream\<close> with the two callbacks of the task: each chunk is written at
  \<open>offset\<close>, which starts at the segment's \<open>downloadedBytes\<close> and grows with the chunks,
  and then reported as \<open>initialDownloadedBytes + downloaded\<close>. An error is swallowed when
  the signal is aborted or the error is abort-like.
\<close>

fun consumeEvents ::
  "int \<Rightarrow> int \<Rightarrow> int \<Rightarrow> stream_event list \<Rightarrow> task_world \<Rightarrow> outcome \<times> task_world" where
  "consumeEvents i initial downloaded [] w = (Returned, w)"
| "consumeEvents i initial downloaded (CancelCalled # es) w =
     consumeEvents i initial downloaded es (cancel (fst w), snd w)"
| "consumeEvents i initial downloaded (Chunk c # es) w =
     (case writeSegmentChunk i (initial + downloaded) c (chunkManager (fst w), snd w) of
        (Threw e, cm', d') \<Rightarrow> (Threw e, (fst w)\<lparr> chunkManager := cm' \<rparr>, d')
      | (Returned, cm', d') \<Rightarrow>
          consumeEvents i initial (downloaded + int (length c)) es
            ((fst w)\<lparr> chunkManager :=
                updateSegmentProgress i (initial + (downloaded + int (length c))) cm' \<rparr>, d'))"

definition consumeStream :: "int \<Rightarrow> int \<Rightarrow> fetch \<Rightarrow> task_world \<Rightarrow> outcome \<times> task_world" where
  "consumeStream i initial f w =
     (case consumeEvents i initial 0 (fst f) w of
        (Threw e, t', d') \<Rightarrow>
          (if isCancelled t' then (Returned, t', d') else (Threw e, t', d'))
      | (Returned, t', d') \<Rightarrow>
          (case snd f of
             EndOfStream \<Rightarrow> (Returned, t', d')
           | StreamError abortLike \<Rightarrow>
               (if isCancelled t' \<or> abortLike then (Returned, t', d')
                else (Threw NetworkError, t', d'))))"

text \<open>
  \<open>getNextPendingSegment\<close> returns the segment object itself; the model keeps its position.
\<close>

fun pendingPosition :: "segment list \<Rightarrow> nat option" where
  "pendingPosition [] = None"
| "pendingPosition (s # segs) =
     (if status s = Pending then Some 0 else map_option Suc (pendingPosition segs))"

text \<open>
  \<open>downloadSegment\<close>, one queued fetch: after the stream, \<open>then\<close> marks the segment
  completed; \<open>catch\<close> takes every error, of the stream and of \<open>then\<close>, drops it when the
  task is cancelled and marks the segment failed otherwise. It never throws.
\<close>

definition segmentJobCatch :: "int \<Rightarrow> task_world \<Rightarrow> task_world" where
  "segmentJobCatch i w =
     (if isCancelled (fst w) then w
      else ((fst w)\<lparr> chunkManager := markSegmentFailed i (chunkManager (fst w)) \<rparr>, snd w))"

definition downloadSegment :: "int \<Rightarrow> fetch \<Rightarrow> nat \<Rightarrow> task_world \<Rightarrow> task_world" where
  "downloadSegment now f pos w =
     (if pos < length (segments (chunkManager (fst w))) then
        (let seg = segments (chunkManager (fst w)) ! pos
         in case consumeStream (index seg) (downloadedBytes seg) f w of
              (Threw e, w1) \<Rightarrow> segmentJobCatch (index seg) w1
            | (Returned, t1, d1) \<Rightarrow>
                (case markSegmentCompleted now (index seg) (chunkManager t1, d1) of
                   (Returned, cm2, d2) \<Rightarrow> (t1\<lparr> chunkManager := cm2 \<rparr>, d2)
                 | (Threw e, cm2, d2) \<Rightarrow>
                     segmentJobCatch (index seg) (t1\<lparr> chunkManager := cm2 \<rparr>, d2)))
      else w)"

text \<open>What happens during one stretch of waiting.\<close>

fun duringWait :: "int \<Rightarrow> wait_event list \<Rightarrow> task_world \<Rightarrow> task_world" where
  "duringWait now [] w = w"
| "duringWait now (UserPause # es) w = duringWait now es (pause (fst w), snd w)"
| "duringWait now (UserResume # es) w = duringWait now es (resume (fst w), snd w)"
| "duringWait now (UserCancel # es) w = duringWait now es (cancel (fst w), snd w)"
| "duringWait now (RunJob f # es) w =
     (case queued (fst w) of
        [] \<Rightarrow> duringWait now es w
      | pos # rest \<Rightarrow>
          duringWait now es (downloadSegment now f pos ((fst w)\<lparr> queued := rest \<rparr>, snd w)))"

text \<open>
  \<open>queue.onIdle()\<close> resolves at once when nothing is queued, and otherwise when the queue
  has emptied; \<open>waitForResume\<close> polls until the task is no longer paused or is cancelled.
  \<open>None\<close>: the wait does not end within the given stretches.
\<close>

fun awaitIdle ::
  "int \<Rightarrow> wait_event list list \<Rightarrow> task_world \<Rightarrow> (task_world \<times> wait_event list list) option" where
  "awaitIdle now [] w = (if queued (fst w) = [] then Some (w, []) else None)"
| "awaitIdle now (es # rest) w =
     (if queued (fst w) = [] then Some (w, es # rest)
      else awaitIdle now rest (duringWait now es w))"

fun waitForResume ::
  "int \<Rightarrow> wait_event list list \<Rightarrow> task_world \<Rightarrow> (task_world \<times> wait_event list list) option" where
  "waitForResume now [] w = None"
| "waitForResume now (es # rest) w =
     (let w1 = duringWait now es w
      in if \<not> isPaused (fst w1) \<or> isCancelled (fst w1) then Some (w1, rest)
         else waitForResume now rest w1)"

text \<open>
  The \<open>while\<close> loop of \<open>downloadWithSegments\<close>, one iteration per unit of fuel; \<open>None\<close>
  is a loop that has not ended when the fuel or the waiting runs out.
\<close>

fun downloadWithSegments_loop ::
  "nat \<Rightarrow> int \<Rightarrow> wait_event list list \<Rightarrow> task_world \<Rightarrow>
     (task_world \<times> wait_event list list) option" where
  "downloadWithSegments_loop 0 now ws w = None"
| "downloadWithSegments_loop (Suc n) now ws w =
     (if \<not> isComplete (chunkManager (fst w)) \<and> \<not> isCancelled (fst w) then
        (case (if isPaused (fst w) then waitForResume now ws w else Some (w, ws)) of
           None \<Rightarrow> None
         | Some (w1, ws1) \<Rightarrow>
             (if isCancelled (fst w1) then Some (w1, ws1)
              else
                (case pendingPosition (segments (chunkManager (fst w1))) of
                   None \<Rightarrow>
                     (case awaitIdle now ws1 w1 of
                        None \<Rightarrow> None
                      | Some (w2, ws2) \<Rightarrow> downloadWithSegments_loop n now ws2 w2)
                 | Some pos \<Rightarrow>
                     downloadWithSegments_loop n now ws1
                       ((fst w1)\<lparr> chunkManager :=
                            markSegmentDownloading
                              (index (segments (chunkManager (fst w1)) ! pos))
                              (chunkManager (fst w1)),
                          queued := queued (fst w1) @ [pos] \<rparr>, snd w1))))
      else Some (w, ws))"

definition downloadWithSegments ::
  "nat \<Rightarrow> int \<Rightarrow> wait_event list list \<Rightarrow> task_world \<Rightarrow> (outcome \<times> task_world) option" where
  "downloadWithSegments fuel now ws w =
     (case downloadWithSegments_loop fuel now ws w of
        None \<Rightarrow> None
      | Some (w1, ws1) \<Rightarrow>
          (case awaitIdle now ws1 w1 of
             None \<Rightarrow> None
           | Some (w2, ws2) \<Rightarrow>
               Some (Returned,
                 (if \<not> isCancelled (fst w2) then (fst w2)\<lparr> info_status := TaskCompleted \<rparr>
                  else fst w2),
                 snd w2)))"

definition downloadSingleFile :: "int \<Rightarrow> fetch \<Rightarrow> task_world \<Rightarrow> outcome \<times> task_world" where
  "downloadSingleFile now f w =
     (case pendingPosition (segments (chunkManager (fst w))) of
        None \<Rightarrow> (Threw NoSegmentAvailable, w)
      | Some pos \<Rightarrow>
          (let seg = segments (chunkManager (fst w)) ! pos;
               w0 = ((fst w)\<lparr> chunkManager :=
                        markSegmentDownloading (index seg) (chunkManager (fst w)) \<rparr>, snd w)
           in case consumeStream (index seg) (downloadedBytes seg) f w0 of
                (Threw e, w1) \<Rightarrow> (Threw e, w1)
              | (Returned, t1, d1) \<Rightarrow>
                  (case markSegmentCompleted now (index seg) (chunkManager t1, d1) of
                     (Threw e, cm2, d2) \<Rightarrow> (Threw e, t1\<lparr> chunkManager := cm2 \<rparr>, d2)
                   | (Returned, cm2, d2) \<Rightarrow>
                       (Returned, t1\<lparr> chunkManager := cm2, info_status := TaskCompleted \<rparr>,
                        d2))))"

text \<open>
  \<open>start\<close>: the \<open>try\<close> block from \<open>initialize\<close> to \<open>downloadSucceeded = true\<close>, the
  \<open>catch\<close> block, which saves the progress and rethrows, and the \<open>finally\<close> block, which
  calls \<open>cleanup(downloadSucceeded)\<close>.
\<close>

definition startTry ::
  "nat \<Rightarrow> int \<Rightarrow> environment \<Rightarrow> task_world \<Rightarrow> (outcome \<times> task_world) option" where
  "startTry fuel now env w =
     (case initialize now (chunkManager (fst w), snd w) of
        None \<Rightarrow> None
      | Some (Threw e, cm1, d1) \<Rightarrow> Some (Threw e, (fst w)\<lparr> chunkManager := cm1 \<rparr>, d1)
      | Some (Returned, cm1, d1) \<Rightarrow>
          (if \<not> supportsRange env
           then Some (downloadSingleFile now (singleFetch env)
                        ((fst w)\<lparr> chunkManager := cm1 \<rparr>, d1))
           else downloadWithSegments fuel now (waits env)
                  ((fst w)\<lparr> chunkManager := cm1 \<rparr>, d1)))"

definition startFinally :: "bool \<Rightarrow> task_world \<Rightarrow> task_world" where
  "startFinally downloadSucceeded w =
     (case cleanup downloadSucceeded (chunkManager (fst w), snd w) of
        (cm', d') \<Rightarrow> ((fst w)\<lparr> chunkManager := cm' \<rparr>, d'))"

definition start ::
  "nat \<Rightarrow> int \<Rightarrow> environment \<Rightarrow> ChunkManagerOptions \<Rightarrow> disk \<Rightarrow> (outcome \<times> task_world) option" where
  "start fuel now env opts d =
     (case startTry fuel now env
             (\<lparr> chunkManager = ChunkManager_new opts, info_status = TaskDownloading,
                isPaused = False, isCancelled = False, queued = [] \<rparr>, d) of
        None \<Rightarrow> None
      | Some (Returned, w1) \<Rightarrow> Some (Returned, startFinally True w1)
      | Some (Threw e, t1, d1) \<Rightarrow>
          (let t2 = t1\<lparr> info_status := TaskFailed \<rparr>
           in case (if resumeDownloads (chunkManager t2)
                    then saveProgress now (chunkManager t2, d1)
                    else (Returned, chunkManager t2, d1)) of
                (Returned, cm3, d3) \<Rightarrow>
                  Some (Threw e, startFinally False (t2\<lparr> chunkManager := cm3 \<rparr>, d3))
              | (Threw e', cm3, d3) \<Rightarrow>
                  Some (Threw e', startFinally False (t2\<lparr> chunkManager := cm3 \<rparr>, d3))))"

section \<open>Auxiliary definitions for the proofs\<close>

text \<open>
  The \<open>j\<close>-th segment that the segmentation loop pushes when it is entered at byte
  \<open>sb\<close> with index \<open>idx\<close>: the closed form of the loop.
\<close>

definition layoutSegment :: "int \<Rightarrow> int \<Rightarrow> int \<Rightarrow> int \<Rightarrow> nat \<Rightarrow> segment" where
  "layoutSegment tsize width sb idx j =
     \<lparr> index = idx + int j, startByte = sb + int j * width,
       endByte = min (sb + int j * width + width - 1) (tsize - 1),
       downloadedBytes = 0, status = Pending \<rparr>"

text \<open>
  The task-wide counter agrees with the segments: it is the sum of their
  \<open>downloadedBytes\<close>.
\<close>

definition countersAgree :: "chunk_manager \<Rightarrow> bool" where
  "countersAgree cm = (cm_downloadedBytes cm = sum_list (map downloadedBytes (segments cm)))"

text \<open>Inputs of the worked examples.\<close>

definition options_15360 :: ChunkManagerOptions where
  "options_15360 =
     \<lparr> opt_segmentSize = 4096, opt_maxSplits = 5, opt_totalSize = 15360,
       opt_outputPath = ''downloads/file.bin'', opt_fileAllocation = Trunc,
       opt_resumeDownloads = True, opt_alwaysResume = True,
       opt_urls = [''https://example.com/file.bin''] \<rparr>"

definition options_10 :: ChunkManagerOptions where
  "options_10 =
     \<lparr> opt_segmentSize = 1, opt_maxSplits = 4, opt_totalSize = 10,
       opt_outputPath = ''downloads/file.bin'', opt_fileAllocation = Trunc,
       opt_resumeDownloads = True, opt_alwaysResume = True,
       opt_urls = [''https://example.com/file.bin''] \<rparr>"

text \<open>
  A manager in the middle of a download of 10 bytes in four segments, started at clock
  reading 0, and a disk holding its output file.
\<close>

definition manager_10 :: chunk_manager where
  "manager_10 =
     (ChunkManager_new options_10)
       \<lparr> segments :=
           [\<lparr> index = 0, startByte = 0, endByte = 2, downloadedBytes = 3, status = Completed \<rparr>,
            \<lparr> index = 1, startByte = 3, endByte = 5, downloadedBytes = 1, status = Downloading \<rparr>,
            \<lparr> index = 2, startByte = 6, endByte = 8, downloadedBytes = 0, status = Pending \<rparr>,
            \<lparr> index = 3, startByte = 9, endByte = 9, downloadedBytes = 0, status = Pending \<rparr>],
         cm_downloadedBytes := 4,
         writer := Some True \<rparr>"

definition disk_10 :: disk where
  "disk_10 = Dir \<lparr> outFile = Some (replicate 10 0), ctrlFile = None \<rparr>"

text \<open>An output file of 100 bytes with no control file beside it.\<close>

definition disk_100 :: disk where
  "disk_100 = Dir \<lparr> outFile = Some (replicate 100 0), ctrlFile = None \<rparr>"

text \<open>
  The same download without strict resume, and a disk whose control file parses as JSON,
  holds one half-downloaded segment and carries the version \<open>2.0\<close>.
\<close>

definition options_10_lenient :: ChunkManagerOptions where
  "options_10_lenient = options_10\<lparr> opt_alwaysResume := False \<rparr>"

definition record_v2 :: ControlFileData where
  "record_v2 =
     \<lparr> version = ''2.0'', cf_urls = [''https://example.com/file.bin''],
       cf_filename = ''file.bin'', cf_outputPath = ''downloads/file.bin'',
       cf_totalSize = 10, cf_downloadedBytes = None,
       cf_segments = Some [\<lparr> index = 0, startByte = 0, endByte = 9, downloadedBytes = 5,
                              status = Downloading \<rparr>],
       createdAt = 0, lastModified = 0 \<rparr>"

definition disk_v2 :: disk where
  "disk_v2 = Dir \<lparr> outFile = Some (replicate 10 0), ctrlFile = Some (Parsed record_v2) \<rparr>"

text \<open>Projections of the result of \<open>initialize\<close>.\<close>

definition outFileOf :: "disk \<Rightarrow> byte list option" where
  "outFileOf d = (case d of NoDir _ \<Rightarrow> None | Dir dir \<Rightarrow> outFile dir)"

definition outcomeAndSegments :: "(outcome \<times> world) option \<Rightarrow> (outcome \<times> segment list) option" where
  "outcomeAndSegments r = map_option (\<lambda>(out, cm, d). (out, segments cm)) r"

definition forgetControlFile ::
  "(outcome \<times> world) option \<Rightarrow> (outcome \<times> chunk_manager \<times> byte list option) option" where
  "forgetControlFile r = map_option (\<lambda>(out, cm, d). (out, cm, outFileOf d)) r"

text \<open>The bytes of a segment, and managers that are saved and resumed.\<close>

definition byteRange :: "segment \<Rightarrow> int set" where
  "byteRange s = {startByte s..endByte s}"

definition manager_full :: chunk_manager where
  "manager_full =
     (ChunkManager_new options_10)
       \<lparr> segments :=
           [\<lparr> index = 0, startByte = 0, endByte = 9, downloadedBytes = 10, status = Downloading \<rparr>],
         cm_downloadedBytes := 10,
         writer := Some True \<rparr>"

definition manager_resume :: chunk_manager where
  "manager_resume =
     (ChunkManager_new options_10)
       \<lparr> segments :=
           [\<lparr> index = 0, startByte = 0, endByte = 4, downloadedBytes = 5, status = Completed \<rparr>,
            \<lparr> index = 1, startByte = 5, endByte = 9, downloadedBytes = 2, status = Downloading \<rparr>],
         cm_downloadedBytes := 7,
         writer := Some True \<rparr>"

definition disk_resume :: disk where
  "disk_resume = snd (snd (saveProgress 0 (manager_resume, disk_10)))"

text \<open>
  Runs of a download of 10 bytes in four segments on a fresh directory: one that is
  cancelled by the user after the first segment's fetch, while the other three fetches are
  queued; one whose stream fails on a server without range support; one that completes;
  and one on a server without range support that is cancelled while the stream is read.
\<close>

definition disk_fresh :: disk where
  "disk_fresh = Dir \<lparr> outFile = None, ctrlFile = None \<rparr>"

definition env_cancelled :: environment where
  "env_cancelled =
     \<lparr> supportsRange = True,
       singleFetch = ([], EndOfStream),
       waits = [[RunJob ([Chunk [1, 2, 3]], EndOfStream), UserCancel,
                 RunJob ([], StreamError True), RunJob ([], StreamError True),
                 RunJob ([], StreamError True)]] \<rparr>"

definition env_failed :: environment where
  "env_failed =
     \<lparr> supportsRange = False,
       singleFetch = ([Chunk [1, 2, 3]], StreamError False),
       waits = [] \<rparr>"

definition env_complete :: environment where
  "env_complete =
     \<lparr> supportsRange = True,
       singleFetch = ([], EndOfStream),
       waits = [[RunJob ([Chunk [1, 2, 3]], EndOfStream), 
                 RunJob ([Chunk [4, 5], Chunk [6]], EndOfStream), RunJob ([Chunk [7,8,9]], EndOfStream),
                 RunJob ([Chunk [10]], EndOfStream)]] \<rparr>"

definition env_cancel_single :: environment where
  "env_cancel_single =
     \<lparr> supportsRange = False,
       singleFetch = ([Chunk [1, 2, 3], CancelCalled], StreamError True),
       waits = [] \<rparr>"

definition runSummary :: "(outcome \<times> task_world) option \<Rightarrow> (outcome \<times> task_status \<times> bool) option" where
  "runSummary r = map_option (\<lambda>(out, t, d). (out, info_status t, ControlFile_exists d)) r"

section \<open>Fresh segmentation: the loop in closed form\<close>

lemma ceil_div_nonpos: "1 \<le> w \<Longrightarrow> x \<le> 0 \<Longrightarrow> ceil_div x w \<le> 0"
  by (simp add: ceil_div_def pos_imp_zdiv_nonneg_iff)

lemma ceil_div_step: "1 \<le> w \<Longrightarrow> ceil_div x w = ceil_div (x - w) w + 1"
proof -
  assume w: "1 \<le> w"
  then have "w \<noteq> 0" by simp
  from div_add_self2[OF this, of "- x"] show ?thesis by (simp add: ceil_div_def)
qed

lemma ceil_div_pos: 
  assumes "1 \<le> w" "0 < x" shows "1 \<le> ceil_div x w"
proof -
  have "w - x \<le> w - 1" using assms by simp
  then have "(w - x) div w \<le> (w - 1) div w" using assms(1) by (intro zdiv_mono1) auto
  also have "(w - 1) div w = 0" using assms(1) by (simp add: div_pos_pos_trivial)
  finally have "ceil_div (x - w) w \<ge> 0" by (simp add: ceil_div_def)
  then show ?thesis using ceil_div_step[OF assms(1), of x] by simp
qed

lemma less_ceil_div_iff:
  assumes "1 \<le> w"
  shows "int k < ceil_div x w \<longleftrightarrow> int k * w < x"
proof (induction k arbitrary: x)
  case 0
  show ?case
  proof (cases "0 < x")
    case True
    with ceil_div_pos[OF assms, of x] show ?thesis by simp
  next
    case False
    with ceil_div_nonpos[OF assms, of x] show ?thesis by simp
  qed
next
  case (Suc k)
  have "int (Suc k) < ceil_div x w \<longleftrightarrow> int k < ceil_div (x - w) w"
    using ceil_div_step[OF assms, of x] by (simp; arith)
  also have "\<dots> \<longleftrightarrow> int k * w < x - w" by (rule Suc.IH)
  also have "\<dots> \<longleftrightarrow> int (Suc k) * w < x" by (simp add: algebra_simps)
  finally show ?case .
qed


lemma createSegments_loop_closed:
  assumes w: "1 \<le> w"
  shows "createSegments_loop t w sb idx segs =
           Some (segs @ map (layoutSegment t w sb idx) [0..<nat (ceil_div (t - sb) w)])"
proof (induction "nat (ceil_div (t - sb) w)" arbitrary: sb idx segs)
  case 0
  have "\<not> sb < t"
  proof
    assume "sb < t"
    then have "1 \<le> ceil_div (t - sb) w" by (intro ceil_div_pos[OF w]) simp
    with 0 show False by simp
  qed
  then show ?case using 0 by (subst createSegments_loop.simps) simp
next
  case (Suc m)
  have lt: "sb < t"
  proof (rule ccontr)
    assume "\<not> sb < t"
    then have "ceil_div (t - sb) w \<le> 0" by (intro ceil_div_nonpos[OF w]) simp
    with Suc.hyps(2) show False by simp
  qed
  show ?case
  proof (cases "t - sb \<le> w")
    case True
    then have e: "min (sb + w - 1) (t - 1) = t - 1" by simp
    have "\<not> 1 < ceil_div (t - sb) w" 
      using True less_ceil_div_iff[OF w, of 1 "t - sb"] by simp
    then have n1: "nat (ceil_div (t - sb) w) = 1" using Suc.hyps(2) by linarith
    have "createSegments_loop t w sb idx segs =
        createSegments_loop t w t (idx + 1) (segs @ [layoutSegment t w sb idx 0])"
      using lt e by (subst createSegments_loop.simps) (simp add: layoutSegment_def)
    also have "\<dots> = Some (segs @ [layoutSegment t w sb idx 0])"
      by (subst createSegments_loop.simps) simp
    finally show ?thesis by (simp add: n1)
  next
    case False
    then have e: "min (sb + w - 1) (t - 1) = sb + w - 1" by simp
    have m: "m = nat (ceil_div (t - (sb + w)) w)"
      using Suc.hyps(2) ceil_div_step[OF w, of "t - sb"] by (simp add: algebra_simps)
    have shift: "layoutSegment t w (sb + w) (idx + 1) j = layoutSegment t w sb idx (Suc j)" for j
      by (simp add: layoutSegment_def algebra_simps)
    have "createSegments_loop t w sb idx segs =
        createSegments_loop t w (sb + w) (idx + 1) (segs @ [layoutSegment t w sb idx 0])"
      using lt e by (subst createSegments_loop.simps) (simp add: layoutSegment_def)
    also have "\<dots> = Some ((segs @ [layoutSegment t w sb idx 0]) @
         map (layoutSegment t w (sb + w) (idx + 1)) [0..<m])"
      using Suc.hyps(1)[OF m] m by simp
    also have "\<dots> = Some (segs @ map (layoutSegment t w sb idx) [0..<Suc m])"
      by (simp add: shift map_upt_Suc del: upt_Suc)
    finally show ?thesis using Suc.hyps(2) by simp
  qed
qed


lemma layout_nth:
  "k < n \<Longrightarrow> map (layoutSegment t w 0 0) [0..<n] ! k = layoutSegment t w 0 0 k"
  by simp













lemma targetSegments_ge1: "1 \<le> targetSegments cm"
  by (simp add: targetSegments_def split: option.splits)

lemma nominalWidth_ge1: "1 \<le> totalSize cm \<Longrightarrow> 1 \<le> nominalWidth cm"
  unfolding nominalWidth_def by (intro ceil_div_pos targetSegments_ge1) simp

lemma createSegments_closed:
  assumes "1 \<le> totalSize cm"
  shows "createSegments cm =
           Some (cm\<lparr> segments := map (layoutSegment (totalSize cm) (nominalWidth cm) 0 0)
                                    [0..<nat (ceil_div (totalSize cm) (nominalWidth cm))],
                      cm_downloadedBytes := 0 \<rparr>)"
  unfolding createSegments_def
  by (simp add: createSegments_loop_closed[OF nominalWidth_ge1[OF assms]])

lemma createSegments_empty:
  assumes "\<not> 1 \<le> totalSize cm"
  shows "createSegments cm = Some (cm\<lparr> segments := [], cm_downloadedBytes := 0 \<rparr>)"
  unfolding createSegments_def using assms
  by (subst createSegments_loop.simps) simp

lemma createSegments_total: "\<exists>cm'. createSegments cm = Some cm'"
  using createSegments_closed[of cm] createSegments_empty[of cm] by (cases "1 \<le> totalSize cm") simp_all







section \<open>Fresh segmentation: worked inputs and segment sizes\<close>

text \<open>
  Claim C4 says that \<open>totalSize = 15360\<close>, \<open>segmentSize = 4096\<close> and \<open>maxSplits = 5\<close>
  give exactly 4 segments. They do not: \<open>\<lfloor>15360 / 4096\<rfloor> = 3\<close>, so the target is
  \<open>min(5, 3) = 3\<close>, the width is \<open>15360 / 3 = 5120\<close> and the loop pushes three segments.
\<close>

theorem createSegments_15360_not_four:
  "map_option (length \<circ> segments) (createSegments (ChunkManager_new options_15360)) \<noteq> Some 4"
  by code_simp

text \<open>
  Claim C4, amended: for \<open>totalSize = 15360\<close>, \<open>segmentSize = 4096\<close> and
  \<open>maxSplits = 5\<close>, fresh segmentation produces exactly 3 segments, \<open>[0, 5119]\<close>,
  \<open>[5120, 10239]\<close> and \<open>[10240, 15359]\<close>.
\<close>

theorem createSegments_15360_three:
  "map_option segments (createSegments (ChunkManager_new options_15360)) =
     Some [\<lparr> index = 0, startByte = 0, endByte = 5119, downloadedBytes = 0, status = Pending \<rparr>,
           \<lparr> index = 1, startByte = 5120, endByte = 10239, downloadedBytes = 0, status = Pending \<rparr>,
           \<lparr> index = 2, startByte = 10240, endByte = 15359, downloadedBytes = 0, status = Pending \<rparr>]"
  by code_simp






section \<open>Progress counters\<close>

lemma segmentAt_in_range:
  "0 \<le> i \<Longrightarrow> i < int (length (segments cm)) \<Longrightarrow> segmentAt cm i = Some (segments cm ! nat i)"
  by (simp add: segmentAt_def)

lemma segmentAt_out_of_range:
  "i < 0 \<or> int (length (segments cm)) \<le> i \<Longrightarrow> segmentAt cm i = None"
  by (auto simp: segmentAt_def)

lemma segmentAt_Some:
  "segmentAt cm i = Some s \<Longrightarrow> nat i < length (segments cm) \<and> s = segments cm ! nat i"
  by (auto simp: segmentAt_def split: if_splits)

lemma sum_downloaded_update:
  "k < length segs \<Longrightarrow>
     sum_list (map downloadedBytes (segs[k := s])) =
     sum_list (map downloadedBytes segs) + (downloadedBytes s - downloadedBytes (segs ! k))"
proof (induction segs arbitrary: k)
  case Nil
  then show ?case by simp
next
  case (Cons x xs)
  then show ?case by (cases k) simp_all
qed

lemma updateSegmentProgress_agree:
  assumes "countersAgree cm"
  shows "countersAgree (updateSegmentProgress j b cm)"
proof (cases "segmentAt cm j")
  case None
  then show ?thesis using assms by (simp add: updateSegmentProgress_def)
next
  case (Some s)
  from segmentAt_Some[OF Some] have k: "nat j < length (segments cm)" and s: "s = segments cm ! nat j"
    by simp_all
  show ?thesis using assms k
    by (simp add: updateSegmentProgress_def Some countersAgree_def sum_downloaded_update s)
qed

lemma saveProgress_state: "fst (snd (saveProgress now (cm, d))) = cm"
  by (simp add: saveProgress_def split: option.splits)

lemma markSegmentCompleted_agree:
  assumes "countersAgree cm"
  shows "countersAgree (fst (snd (markSegmentCompleted now j (cm, d))))"
proof (cases "segmentAt cm j")
  case None
  then show ?thesis using assms by (simp add: markSegmentCompleted_def saveProgress_state)
next
  case (Some s)
  from segmentAt_Some[OF Some] have k: "nat j < length (segments cm)" and s: "s = segments cm ! nat j"
    by simp_all
  show ?thesis using assms k
    by (simp add: markSegmentCompleted_def Some saveProgress_state countersAgree_def
        sum_downloaded_update s)
qed

text \<open>
  Claim C2. Where a segment exists at position \<open>i\<close>, \<open>updateSegmentProgress(i, v)\<close> sets
  that segment's \<open>downloadedBytes\<close> to exactly \<open>v\<close>, leaves every other segment as it
  was, and changes the task-wide counter by \<open>v\<close> minus the segment's previous
  \<open>downloadedBytes\<close>. Hence the equation "counter = sum of the segments'
  \<open>downloadedBytes\<close>", once true, still holds after any call of
  \<open>updateSegmentProgress\<close> and of \<open>markSegmentCompleted\<close>.
\<close>

theorem updateSegmentProgress_sets:
  assumes "0 \<le> i" and "i < int (length (segments cm))"
  shows "segments (updateSegmentProgress i v cm) =
           (segments cm)[nat i := (segments cm ! nat i)\<lparr> downloadedBytes := v \<rparr>]
       \<and> downloadedBytes (segments (updateSegmentProgress i v cm) ! nat i) = v
       \<and> (\<forall>j<length (segments cm). j \<noteq> nat i \<longrightarrow>
             segments (updateSegmentProgress i v cm) ! j = segments cm ! j)
       \<and> cm_downloadedBytes (updateSegmentProgress i v cm) =
           cm_downloadedBytes cm + (v - downloadedBytes (segments cm ! nat i))
       \<and> (countersAgree cm \<longrightarrow>
            (\<forall>j b. countersAgree (updateSegmentProgress j b cm)) \<and>
            (\<forall>j now d. countersAgree (fst (snd (markSegmentCompleted now j (cm, d))))))"
proof -
  have k: "nat i < length (segments cm)" using assms by simp
  have a: "segments (updateSegmentProgress i v cm) =
           (segments cm)[nat i := (segments cm ! nat i)\<lparr> downloadedBytes := v \<rparr>]"
    by (simp add: updateSegmentProgress_def segmentAt_in_range[OF assms])
  have b: "downloadedBytes (segments (updateSegmentProgress i v cm) ! nat i) = v"
    unfolding a using k by simp
  have c: "\<forall>j<length (segments cm). j \<noteq> nat i \<longrightarrow>
             segments (updateSegmentProgress i v cm) ! j = segments cm ! j"
    unfolding a by simp
  have d: "cm_downloadedBytes (updateSegmentProgress i v cm) =
           cm_downloadedBytes cm + (v - downloadedBytes (segments cm ! nat i))"
    by (simp add: updateSegmentProgress_def segmentAt_in_range[OF assms])
  have e: "countersAgree cm \<longrightarrow>
            (\<forall>j b. countersAgree (updateSegmentProgress j b cm)) \<and>
            (\<forall>j now d. countersAgree (fst (snd (markSegmentCompleted now j (cm, d)))))"
    using updateSegmentProgress_agree markSegmentCompleted_agree by blast
  show ?thesis by (intro conjI a b c d e)
qed

theorem updateSegmentProgress_sets_witness:
  "(0::int) \<le> 1 \<and> 1 < int (length (segments manager_10)) \<and> countersAgree manager_10
   \<and> downloadedBytes (segments (updateSegmentProgress 1 2 manager_10) ! nat 1) = 2
   \<and> cm_downloadedBytes (updateSegmentProgress 1 2 manager_10) = 5
   \<and> countersAgree (updateSegmentProgress 1 2 manager_10)
   \<and> countersAgree (fst (snd (markSegmentCompleted 0 1 (manager_10, disk_10))))"
proof -
  have h: "(0::int) \<le> 1" "1 < int (length (segments manager_10))"
    by (simp_all add: manager_10_def)
  have a: "countersAgree manager_10" by (simp add: countersAgree_def manager_10_def)
  have b: "cm_downloadedBytes manager_10 + (2 - downloadedBytes (segments manager_10 ! nat 1)) = 5"
    by (simp add: manager_10_def)
  from updateSegmentProgress_sets[OF h, of 2] a b h show ?thesis by simp
qed

text \<open>
  Claim C10. For an index at which no segment exists (negative, or not below the number
  of segments), \<open>markSegmentDownloading\<close>, \<open>markSegmentFailed\<close> and
  \<open>updateSegmentProgress\<close> leave the manager, its segment list and its counter, as it
  was; \<open>markSegmentCompleted\<close> changes no segment and no counter and is exactly a
  \<open>saveProgress\<close> of the unchanged manager.
\<close>

theorem out_of_range_noop:
  assumes "i < 0 \<or> int (length (segments cm)) \<le> i"
  shows "markSegmentDownloading i cm = cm
       \<and> markSegmentFailed i cm = cm
       \<and> updateSegmentProgress i v cm = cm
       \<and> markSegmentCompleted now i (cm, d) = saveProgress now (cm, d)
       \<and> fst (snd (markSegmentCompleted now i (cm, d))) = cm"
  using segmentAt_out_of_range[OF assms]
  by (simp add: markSegmentDownloading_def markSegmentFailed_def updateSegmentProgress_def
      markSegmentCompleted_def saveProgress_state)

theorem out_of_range_noop_witness:
  "((-1::int) < 0 \<or> int (length (segments manager_10)) \<le> -1)
   \<and> markSegmentDownloading (-1) manager_10 = manager_10
   \<and> markSegmentFailed (-1) manager_10 = manager_10
   \<and> updateSegmentProgress (-1) 7 manager_10 = manager_10
   \<and> markSegmentCompleted 0 (-1) (manager_10, disk_10) = saveProgress 0 (manager_10, disk_10)"
proof -
  have h: "(-1::int) < 0 \<or> int (length (segments manager_10)) \<le> -1" by simp
  from out_of_range_noop[OF h, of 7 0 disk_10] h show ?thesis by simp
qed

text \<open>
  Claim C9. \<open>getProgress\<close> returns \<open>downloadedBytes = min(counter, totalSize)\<close>,
  \<open>percent = 100 \<sqdot> downloadedBytes / totalSize\<close> clamped to at most 100 (0 when
  \<open>totalSize = 0\<close>), \<open>eta = remainingBytes / speed\<close> when \<open>speed > 0\<close> and 0 when
  \<open>speed \<le> 0\<close>; the percent never exceeds 100. Sizes are not negative.
\<close>

theorem getProgress_snapshot:
  assumes "0 \<le> totalSize cm"
  shows "p_downloadedBytes (getProgress now cm) = min (cm_downloadedBytes cm) (totalSize cm)
       \<and> percent (getProgress now cm) =
           (if totalSize cm = 0 then 0
            else min (100 * real_of_int (p_downloadedBytes (getProgress now cm))
                        / real_of_int (totalSize cm)) 100)
       \<and> eta (getProgress now cm) =
           (if speed (getProgress now cm) > 0
            then real_of_int (totalSize cm - p_downloadedBytes (getProgress now cm))
                   / speed (getProgress now cm)
            else 0)
       \<and> (speed (getProgress now cm) \<le> 0 \<longrightarrow> eta (getProgress now cm) = 0)
       \<and> percent (getProgress now cm) \<le> 100"
proof -
  have r: "max 0 (totalSize cm - min (cm_downloadedBytes cm) (totalSize cm)) =
           totalSize cm - min (cm_downloadedBytes cm) (totalSize cm)" by simp
  show ?thesis using assms
    by (simp add: getProgress_def Let_def r mult.commute
        del: max.absorb1 max.absorb2 max.absorb3 max.absorb4)
qed


theorem getProgress_snapshot_witness:
  "0 \<le> totalSize manager_10
   \<and> p_downloadedBytes (getProgress 2000 manager_10) = 4
   \<and> percent (getProgress 2000 manager_10) = 40
   \<and> speed (getProgress 2000 manager_10) = 2
   \<and> eta (getProgress 2000 manager_10) = 3"
proof -
  have h: "0 \<le> totalSize manager_10" by (simp add: manager_10_def ChunkManager_new_def options_10_def)
  have v: "totalSize manager_10 = 10" "cm_downloadedBytes manager_10 = 4"
    by (simp_all add: manager_10_def ChunkManager_new_def options_10_def)
  have s: "speed (getProgress 2000 manager_10) = 2"
    by (simp add: getProgress_def manager_10_def ChunkManager_new_def options_10_def)
  from getProgress_snapshot[OF h, of 2000] h v s show ?thesis by simp
qed

section \<open>Initialization: the strict resume check\<close>

lemma initWriter_outcome: "fst (initWriter w) = Returned \<or> fst (initWriter w) = Threw IOError"
  by (cases w) (simp add: initWriter_def split: option.splits)

lemma saveProgress_outcome:
  "fst (saveProgress now w) = Returned \<or> fst (saveProgress now w) = Threw IOError"
  by (cases w) (simp add: saveProgress_def split: option.splits)

lemma validateSegmentSizes_outcome:
  "validateSegmentSizes loaded cm = Some (Threw e, cm') \<Longrightarrow> e = ResumeMismatch"
  by (auto simp: validateSegmentSizes_def Let_def split: if_splits)

lemma loadResumeData_outcome:
  "loadResumeData data cm = Some (Threw e, cm') \<Longrightarrow> e = ResumeInvalid \<or> e = ResumeMismatch"
  by (auto simp: loadResumeData_def Let_def split: if_splits dest: validateSegmentSizes_outcome)

lemma initialize_ResumeRequired_only:
  assumes "initialize now (cm, d) = Some (Threw ResumeRequired, w')"
  shows "\<exists>dir. mkdir d = Some dir \<and> resumeRequiredCheck cm (Dir dir) \<and> w' = (cm, Dir dir)"
proof (cases "mkdir d")
  case None
  with assms show ?thesis by (simp add: initialize_def)
next
  case (Some dir)
  show ?thesis
  proof (cases "resumeRequiredCheck cm (Dir dir)")
    case True
    with assms Some show ?thesis by (simp add: initialize_def)
  next
    case False
    obtain r cm1 d1 where iw: "initWriter (cm, Dir dir) = (r, cm1, d1)" by (cases "initWriter (cm, Dir dir)") auto
    show ?thesis
    proof (cases r)
      case (Threw e)
      with initWriter_outcome[of "(cm, Dir dir)"] iw have "e = IOError" by simp
      with assms Some False iw Threw show ?thesis by (simp add: initialize_def)
    next
      case Returned
      define body where "body = (case (if resumeDownloads cm1 then ControlFile_load d1 else None) of
                               Some data \<Rightarrow> loadResumeData data cm1
                             | None \<Rightarrow> map_option (Pair Returned) (createSegments cm1))"
      have init: "initialize now (cm, d) = (case body of
                         None \<Rightarrow> None
                       | Some (Threw e, cm2) \<Rightarrow> Some (Threw e, cm2, d1)
                       | Some (Returned, cm2) \<Rightarrow>
                           (let cm3 = cm2\<lparr> startTime := now \<rparr>
                            in if resumeDownloads cm3 then Some (saveProgress now (cm3, d1))
                               else Some (Returned, cm3, d1)))"
        using Some False iw Returned by (simp add: initialize_def body_def)
      show ?thesis
      proof (cases body)
        case None
        with assms init show ?thesis by simp
      next
        case (Some rc)
        obtain r2 cm2 where rc: "rc = (r2, cm2)" by (cases rc) auto
        show ?thesis
        proof (cases r2)
          case (Threw e)
          have "e = ResumeInvalid \<or> e = ResumeMismatch"
          proof (cases "if resumeDownloads cm1 then ControlFile_load d1 else None")
            case None
            with Some rc Threw show ?thesis by (auto simp: body_def)
          next
            case (Some data)
            with \<open>body = Some rc\<close> rc Threw have "loadResumeData data cm1 = Some (Threw e, cm2)"
              by (simp add: body_def)
            then show ?thesis by (rule loadResumeData_outcome)
          qed
          with assms init Some rc Threw show ?thesis by auto
        next
          case Returned
          with assms init Some rc saveProgress_outcome[of now "(cm2\<lparr> startTime := now \<rparr>, d1)"]
          show ?thesis by (auto simp: Let_def split: if_splits)
        qed
      qed
    qed
  qed
qed

lemma resumeRequiredCheck_iff:
  "resumeRequiredCheck cm (Dir dir) \<longleftrightarrow>
     resumeDownloads cm \<and> alwaysResume cm \<and>
     (\<exists>bytes. outFile dir = Some bytes \<and> bytes \<noteq> []) \<and> ctrlFile dir = None"
  by (auto simp: resumeRequiredCheck_def SegmentWriter_exists_def ControlFile_exists_def Let_def
      split: option.splits)

lemma mkdir_Some_outFile:
  "mkdir d = Some dir \<Longrightarrow> outFile dir = Some bytes \<Longrightarrow> d = Dir dir"
  by (cases d) (auto simp: mkdir_def split: if_splits)

text \<open>
  Claim C5. \<open>initialize\<close> fails with \<open>ResumeRequired\<close> if and only if
  \<open>resumeDownloads\<close> and \<open>alwaysResume\<close> are enabled, the output file exists with
  non-zero size and no control file exists; and when it fails this way the manager and
  the disk are as they were before the call: the File Writer has not been opened and the
  output file has not been written to.
\<close>

theorem initialize_ResumeRequired:
  "((\<exists>w'. initialize now (cm, d) = Some (Threw ResumeRequired, w')) \<longleftrightarrow>
      (resumeDownloads cm \<and> alwaysResume cm \<and>
       (\<exists>dir bytes. d = Dir dir \<and> outFile dir = Some bytes \<and> bytes \<noteq> [] \<and> ctrlFile dir = None)))
   \<and> (\<forall>w'. initialize now (cm, d) = Some (Threw ResumeRequired, w') \<longrightarrow>
          w' = (cm, d) \<and> writer (fst w') = writer cm \<and> snd w' = d)"
proof (rule conjI)
  show "(\<exists>w'. initialize now (cm, d) = Some (Threw ResumeRequired, w')) \<longleftrightarrow>
      (resumeDownloads cm \<and> alwaysResume cm \<and>
       (\<exists>dir bytes. d = Dir dir \<and> outFile dir = Some bytes \<and> bytes \<noteq> [] \<and> ctrlFile dir = None))"
  proof (rule iffI)
    assume "\<exists>w'. initialize now (cm, d) = Some (Threw ResumeRequired, w')"
    then obtain w' where "initialize now (cm, d) = Some (Threw ResumeRequired, w')" ..
    from initialize_ResumeRequired_only[OF this] obtain dir where
      m: "mkdir d = Some dir" and c: "resumeRequiredCheck cm (Dir dir)" by blast
    from c obtain bytes where b: "resumeDownloads cm" "alwaysResume cm" "outFile dir = Some bytes"
      "bytes \<noteq> []" "ctrlFile dir = None" unfolding resumeRequiredCheck_iff by blast
    from mkdir_Some_outFile[OF m b(3)] b
    show "resumeDownloads cm \<and> alwaysResume cm \<and>
         (\<exists>dir bytes. d = Dir dir \<and> outFile dir = Some bytes \<and> bytes \<noteq> [] \<and> ctrlFile dir = None)"
      by blast
  next
    assume "resumeDownloads cm \<and> alwaysResume cm \<and>
         (\<exists>dir bytes. d = Dir dir \<and> outFile dir = Some bytes \<and> bytes \<noteq> [] \<and> ctrlFile dir = None)"
    then obtain dir bytes where d: "d = Dir dir" and "resumeDownloads cm" "alwaysResume cm"
      "outFile dir = Some bytes" "bytes \<noteq> []" "ctrlFile dir = None" by blast
    then have "resumeRequiredCheck cm (Dir dir)" unfolding resumeRequiredCheck_iff by blast
    then have "initialize now (cm, d) = Some (Threw ResumeRequired, cm, d)"
      by (simp add: initialize_def d mkdir_def)
    then show "\<exists>w'. initialize now (cm, d) = Some (Threw ResumeRequired, w')" ..
  qed
  show "\<forall>w'. initialize now (cm, d) = Some (Threw ResumeRequired, w') \<longrightarrow>
          w' = (cm, d) \<and> writer (fst w') = writer cm \<and> snd w' = d"
  proof (intro allI impI)
    fix w' assume "initialize now (cm, d) = Some (Threw ResumeRequired, w')"
    from initialize_ResumeRequired_only[OF this] obtain dir where
      m: "mkdir d = Some dir" and c: "resumeRequiredCheck cm (Dir dir)" and w: "w' = (cm, Dir dir)"
      by blast
    from c obtain bytes where "outFile dir = Some bytes" unfolding resumeRequiredCheck_iff by blast
    from mkdir_Some_outFile[OF m this] w
    show "w' = (cm, d) \<and> writer (fst w') = writer cm \<and> snd w' = d" by simp
  qed
qed


theorem initialize_ResumeRequired_witness:
  "initialize 0 (ChunkManager_new options_10, disk_100) =
     Some (Threw ResumeRequired, ChunkManager_new options_10, disk_100)
   \<and> writer (ChunkManager_new options_10) = None"
proof -
  have c: "resumeDownloads (ChunkManager_new options_10) \<and>
           alwaysResume (ChunkManager_new options_10) \<and>
           (\<exists>dir bytes. disk_100 = Dir dir \<and> outFile dir = Some bytes \<and> bytes \<noteq> [] \<and>
              ctrlFile dir = None)"
    by (simp add: ChunkManager_new_def options_10_def disk_100_def)
  from initialize_ResumeRequired[of 0 "ChunkManager_new options_10" disk_100] c
  obtain w' where w: "initialize 0 (ChunkManager_new options_10, disk_100) =
      Some (Threw ResumeRequired, w')" by blast
  with initialize_ResumeRequired[of 0 "ChunkManager_new options_10" disk_100]
  have "w' = (ChunkManager_new options_10, disk_100)" by blast
  with w show ?thesis by (simp add: ChunkManager_new_def)
qed

section \<open>Initialization: the version of the control record\<close>

text \<open>
  Claim C6 says that a control file whose version is not \<open>1.0\<close> is treated as no valid
  record, as if the file were absent. \<open>ControlFile.load\<close> and \<open>loadResumeData\<close> never
  read the version: a record of version \<open>2.0\<close> is adopted, here one segment with 5 bytes
  downloaded, where an absent control file gives the four fresh segments.
\<close>

theorem initialize_adopts_version_2:
  "outcomeAndSegments (initialize 1 (ChunkManager_new options_10_lenient, disk_v2)) =
     Some (Returned,
       [\<lparr> index = 0, startByte = 0, endByte = 9, downloadedBytes = 5, status = Pending \<rparr>])
   \<and> outcomeAndSegments (initialize 1 (ChunkManager_new options_10_lenient, disk_10)) =
     Some (Returned,
       [\<lparr> index = 0, startByte = 0, endByte = 2, downloadedBytes = 0, status = Pending \<rparr>,
        \<lparr> index = 1, startByte = 3, endByte = 5, downloadedBytes = 0, status = Pending \<rparr>,
        \<lparr> index = 2, startByte = 6, endByte = 8, downloadedBytes = 0, status = Pending \<rparr>,
        \<lparr> index = 3, startByte = 9, endByte = 9, downloadedBytes = 0, status = Pending \<rparr>])"
  by code_simp

lemma loadResumeData_version:
  "loadResumeData (data\<lparr> version := v \<rparr>) cm = loadResumeData data cm"
  by (simp add: loadResumeData_def hasValidSegments_def)

lemma initialize_with_record:
  "forgetControlFile (initialize now (cm, Dir (dir\<lparr> ctrlFile := Some (Parsed data) \<rparr>))) =
     (let content = (let existing = (case outFile dir of None \<Rightarrow> [] | Some bytes \<Rightarrow> bytes)
                     in case fileAllocation cm of
                          Trunc \<Rightarrow> fileTruncate (totalSize cm) existing
                        | Prealloc \<Rightarrow> replicate (nat (totalSize cm)) 0
                        | Falloc \<Rightarrow> fileTruncate (totalSize cm) existing
                        | AllocNone \<Rightarrow> existing);
          cm1 = cm\<lparr> writer := Some True \<rparr>
      in case (if resumeDownloads cm then loadResumeData data cm1
               else map_option (Pair Returned) (createSegments cm1)) of
           None \<Rightarrow> None
         | Some (Threw e, cm2) \<Rightarrow> Some (Threw e, cm2, Some content)
         | Some (Returned, cm2) \<Rightarrow> Some (Returned, cm2\<lparr> startTime := now \<rparr>, Some content))"
  by (simp add: initialize_def mkdir_def resumeRequiredCheck_def ControlFile_exists_def
      SegmentWriter_exists_def initWriter_def SegmentWriter_open_def ControlFile_load_def
      saveProgress_def ControlFile_save_def forgetControlFile_def outFileOf_def Let_def
      split: option.splits outcome.splits prod.splits)

text \<open>
  Claim C6, amended: the reader does not look at the version. For every control file
  that parses as JSON, initialization returns or throws alike, and ends with the same
  manager (segments, counters) and the same output file, whether the version field holds
  \<open>1.0\<close> or any other value.
\<close>

theorem initialize_ignores_version:
  "forgetControlFile
     (initialize now (cm, Dir (dir\<lparr> ctrlFile := Some (Parsed (data\<lparr> version := v \<rparr>)) \<rparr>))) =
   forgetControlFile
     (initialize now (cm, Dir (dir\<lparr> ctrlFile := Some (Parsed (data\<lparr> version := ''1.0'' \<rparr>)) \<rparr>)))"
  unfolding initialize_with_record loadResumeData_version ..

section \<open>Saving and resuming\<close>

text \<open>
  Claim C3 ends with "every saved downloading status becomes pending". A segment saved as
  downloading whose \<open>downloadedBytes\<close> already equals its full size is loaded as
  completed.
\<close>

theorem resume_full_downloading_completed:
  "outcomeAndSegments
     (initialize 1 (ChunkManager_new options_10, snd (snd (saveProgress 0 (manager_full, disk_10))))) =
   Some (Returned,
     [\<lparr> index = 0, startByte = 0, endByte = 9, downloadedBytes = 10, status = Completed \<rparr>])"
  by code_simp

lemma sum_fullSize_card:
  assumes "\<forall>i<length segs. startByte (segs ! i) \<le> endByte (segs ! i)"
    and "\<forall>i<length segs. \<forall>j<length segs. i \<noteq> j \<longrightarrow>
           byteRange (segs ! i) \<inter> byteRange (segs ! j) = {}"
  shows "sum_list (map fullSize segs) = int (card (\<Union>i<length segs. byteRange (segs ! i)))"
  using assms
proof (induction segs rule: rev_induct)
  case Nil
  then show ?case by simp
next
  case (snoc x xs)
  let ?n = "length xs"
  have nth: "(xs @ [x]) ! i = xs ! i" if "i < ?n" for i using that by (simp add: nth_append)
  have IH1: "\<forall>i<?n. startByte (xs ! i) \<le> endByte (xs ! i)"
  proof (intro allI impI)
    fix i assume i: "i < ?n"
    then have "i < length (xs @ [x])" by simp
    with snoc.prems(1) have "startByte ((xs @ [x]) ! i) \<le> endByte ((xs @ [x]) ! i)" by blast
    then show "startByte (xs ! i) \<le> endByte (xs ! i)" by (simp add: nth[OF i])
  qed
  have IH2: "\<forall>i<?n. \<forall>j<?n. i \<noteq> j \<longrightarrow> byteRange (xs ! i) \<inter> byteRange (xs ! j) = {}"
  proof (intro allI impI)
    fix i j assume i: "i < ?n" and j: "j < ?n" and ij: "i \<noteq> j"
    then have "i < length (xs @ [x])" "j < length (xs @ [x])" by simp_all
    with snoc.prems(2) ij
    have "byteRange ((xs @ [x]) ! i) \<inter> byteRange ((xs @ [x]) ! j) = {}" by blast
    then show "byteRange (xs ! i) \<inter> byteRange (xs ! j) = {}" by (simp add: nth[OF i] nth[OF j])
  qed
  have ih: "sum_list (map fullSize xs) = int (card (\<Union>i<?n. byteRange (xs ! i)))"
    using snoc.IH IH1 IH2 by blast
  have xle: "startByte x \<le> endByte x" using snoc.prems(1) by (auto simp: nth_append)
  have dis: "byteRange (xs ! i) \<inter> byteRange x = {}" if "i < ?n" for i
  proof -
    have "i < length (xs @ [x])" "?n < length (xs @ [x])" "i \<noteq> ?n" using that by simp_all
    with snoc.prems(2) have "byteRange ((xs @ [x]) ! i) \<inter> byteRange ((xs @ [x]) ! ?n) = {}"
      by blast
    then show ?thesis by (simp add: nth[OF that])
  qed
  have un: "(\<Union>i<length (xs @ [x]). byteRange ((xs @ [x]) ! i)) =
            (\<Union>i<?n. byteRange (xs ! i)) \<union> byteRange x"
    by (auto simp: lessThan_Suc nth_append)
  have fin: "finite (\<Union>i<?n. byteRange (xs ! i))" by (simp add: byteRange_def)
  have disj: "(\<Union>i<?n. byteRange (xs ! i)) \<inter> byteRange x = {}" using dis by auto
  have "card ((\<Union>i<?n. byteRange (xs ! i)) \<union> byteRange x) =
        card (\<Union>i<?n. byteRange (xs ! i)) + card (byteRange x)"
    using fin disj by (intro card_Un_disjoint) (simp_all add: byteRange_def)
  moreover have "int (card (byteRange x)) = fullSize x"
    using xle by (simp add: byteRange_def fullSize_def)
  ultimately show ?case using ih un by simp
qed


lemma normalizeSegment_in_range:
  assumes "0 \<le> downloadedBytes s" and "downloadedBytes s \<le> fullSize s"
  shows "normalizeSegment s =
           s\<lparr> status := (if downloadedBytes s = fullSize s then Completed else Pending) \<rparr>"
  using assms by (simp add: normalizeSegment_def Let_def)

lemma saveProgress_Returned:
  assumes "resumeDownloads cm" and "saveProgress now (cm, d) = (Returned, cm, d1)"
  shows "\<exists>dir. d1 = Dir (dir\<lparr> ctrlFile := Some (Parsed (controlRecord now cm)) \<rparr>)"
  using assms by (auto simp: saveProgress_def ControlFile_save_def split: option.splits)

lemma forgetControlFile_Returned:
  assumes "forgetControlFile r = Some (Returned, cm', c)"
  shows "\<exists>d'. r = Some (Returned, cm', d')"
  using assms by (auto simp: forgetControlFile_def)

lemma loadResumeData_saved:
  assumes ne: "segments cm \<noteq> []"
    and total: "sum_list (map fullSize (segments cm)) = totalSize cm2"
  shows "loadResumeData (controlRecord t1 cm) cm2 =
     Some (Returned, cm2\<lparr> segments := map normalizeSegment (segments cm),
             cm_downloadedBytes :=
               sum_list (map downloadedBytes (map normalizeSegment (segments cm))) \<rparr>)"
  using assms
  by (simp add: loadResumeData_def hasValidSegments_def controlRecord_def Let_def
      validateSegmentSizes_def)

text \<open>
  Claim C3, amended. Let a manager have resume enabled and \<open>totalSize \<ge> 1\<close>, segments
  that are non-empty ranges, pairwise disjoint, covering \<open>[0, totalSize - 1]\<close>, each with
  \<open>downloadedBytes\<close> in \<open>[0, fullSize]\<close>, and let \<open>saveProgress\<close> have written its record.
  Initializing a new manager with resume enabled and the same \<open>totalSize\<close> on that disk
  returns with a segment list equal to the saved one on index, \<open>startByte\<close>,
  \<open>endByte\<close> and \<open>downloadedBytes\<close>, each status being completed when
  \<open>downloadedBytes\<close> equals the full size and pending otherwise; no loaded segment is
  downloading.
\<close>

theorem save_then_resume:
  assumes saver: "resumeDownloads cm"
    and size: "1 \<le> totalSize cm"
    and nonempty: "\<forall>i<length (segments cm). startByte (segments cm ! i) \<le> endByte (segments cm ! i)"
    and disjoint: "\<forall>i<length (segments cm). \<forall>j<length (segments cm). i \<noteq> j \<longrightarrow>
        {startByte (segments cm ! i)..endByte (segments cm ! i)} \<inter>
        {startByte (segments cm ! j)..endByte (segments cm ! j)} = {}"
    and cover: "(\<Union>i<length (segments cm).
        {startByte (segments cm ! i)..endByte (segments cm ! i)}) = {0..totalSize cm - 1}"
    and bytes: "\<forall>i<length (segments cm).
        0 \<le> downloadedBytes (segments cm ! i) \<and>
        downloadedBytes (segments cm ! i) \<le> fullSize (segments cm ! i)"
    and saved: "saveProgress t1 (cm, d) = (Returned, cm, d1)"
    and resume: "opt_resumeDownloads opts"
    and same: "opt_totalSize opts = totalSize cm"
  shows "\<exists>cm' d'.
      initialize t2 (ChunkManager_new opts, d1) = Some (Returned, cm', d')
    \<and> length (segments cm') = length (segments cm)
    \<and> (\<forall>i<length (segments cm).
          index (segments cm' ! i) = index (segments cm ! i)
        \<and> startByte (segments cm' ! i) = startByte (segments cm ! i)
        \<and> endByte (segments cm' ! i) = endByte (segments cm ! i)
        \<and> downloadedBytes (segments cm' ! i) = downloadedBytes (segments cm ! i)
        \<and> status (segments cm' ! i) =
            (if downloadedBytes (segments cm ! i) = fullSize (segments cm ! i)
             then Completed else Pending)
        \<and> status (segments cm' ! i) \<noteq> Downloading)"
proof -
  let ?segs = "segments cm"
  have card: "sum_list (map fullSize ?segs) = int (card (\<Union>i<length ?segs. byteRange (?segs ! i)))"
    using nonempty disjoint by (intro sum_fullSize_card) (simp_all add: byteRange_def)
  have "(\<Union>i<length ?segs. byteRange (?segs ! i)) = {0..totalSize cm - 1}"
    using cover by (simp add: byteRange_def)
  then have total: "sum_list (map fullSize ?segs) = totalSize cm" using card size by simp
  have ne: "?segs \<noteq> []"
  proof
    assume "?segs = []"
    with total size show False by simp
  qed
  from saveProgress_Returned[OF saver saved] obtain dir where
    d1: "d1 = Dir (dir\<lparr> ctrlFile := Some (Parsed (controlRecord t1 cm)) \<rparr>)" ..
  define cm2 where "cm2 = (ChunkManager_new opts)\<lparr> writer := Some True \<rparr>"
  have r2: "resumeDownloads (ChunkManager_new opts)" using resume by (simp add: ChunkManager_new_def)
  have t2: "totalSize cm2 = totalSize cm" using same by (simp add: cm2_def ChunkManager_new_def)
  have load: "loadResumeData (controlRecord t1 cm) cm2 =
     Some (Returned, cm2\<lparr> segments := map normalizeSegment ?segs,
             cm_downloadedBytes := sum_list (map downloadedBytes (map normalizeSegment ?segs)) \<rparr>)"
    using ne total t2 by (intro loadResumeData_saved) simp_all
  define cm' where "cm' = cm2\<lparr> segments := map normalizeSegment ?segs,
             cm_downloadedBytes := sum_list (map downloadedBytes (map normalizeSegment ?segs)),
             startTime := t2 \<rparr>"
  have "\<exists>c. forgetControlFile (initialize t2 (ChunkManager_new opts, d1)) = Some (Returned, cm', c)"
    unfolding d1 initialize_with_record
    using r2 load by (simp add: Let_def cm2_def[symmetric] cm'_def)
  then obtain c where "forgetControlFile (initialize t2 (ChunkManager_new opts, d1)) =
      Some (Returned, cm', c)" ..
  from forgetControlFile_Returned[OF this] obtain d' where
    init: "initialize t2 (ChunkManager_new opts, d1) = Some (Returned, cm', d')" ..
  have segs': "segments cm' = map normalizeSegment ?segs" by (simp add: cm'_def)
  have each: "index (segments cm' ! i) = index (?segs ! i)
        \<and> startByte (segments cm' ! i) = startByte (?segs ! i)
        \<and> endByte (segments cm' ! i) = endByte (?segs ! i)
        \<and> downloadedBytes (segments cm' ! i) = downloadedBytes (?segs ! i)
        \<and> status (segments cm' ! i) =
            (if downloadedBytes (?segs ! i) = fullSize (?segs ! i) then Completed else Pending)
        \<and> status (segments cm' ! i) \<noteq> Downloading" if "i < length ?segs" for i
  proof -
    from bytes that have b: "0 \<le> downloadedBytes (?segs ! i)"
      "downloadedBytes (?segs ! i) \<le> fullSize (?segs ! i)" by simp_all
    have "segments cm' ! i = normalizeSegment (?segs ! i)" using that by (simp add: segs')
    then show ?thesis by (simp add: normalizeSegment_in_range[OF b] fullSize_def)
  qed
  show ?thesis
    apply (rule exI[of _ cm'])
    apply (rule exI[of _ d'])
    using init each by (simp add: segs')
qed



lemma manager_resume_length: "length (segments manager_resume) = 2" by (simp add: manager_resume_def)
lemma manager_resume_first: "segments manager_resume ! 0 =
      \<lparr> index = 0, startByte = 0, endByte = 4, downloadedBytes = 5, status = Completed \<rparr>"
    and manager_resume_second: "segments manager_resume ! Suc 0 =
      \<lparr> index = 1, startByte = 5, endByte = 9, downloadedBytes = 2, status = Downloading \<rparr>"
    by (simp_all add: manager_resume_def)

lemma manager_resume_ranges: "\<forall>i<length (segments manager_resume).
      startByte (segments manager_resume ! i) \<le> endByte (segments manager_resume ! i)"
  by (simp add: manager_resume_length numeral_2_eq_2 less_Suc_eq manager_resume_first manager_resume_second)

lemma manager_resume_disjoint: "\<forall>i<length (segments manager_resume). \<forall>j<length (segments manager_resume). i \<noteq> j \<longrightarrow>
        {startByte (segments manager_resume ! i)..endByte (segments manager_resume ! i)} \<inter>
        {startByte (segments manager_resume ! j)..endByte (segments manager_resume ! j)} = {}"
  by (auto simp add: manager_resume_length numeral_2_eq_2 less_Suc_eq manager_resume_first manager_resume_second)

lemma manager_resume_cover: "(\<Union>i<length (segments manager_resume).
        {startByte (segments manager_resume ! i)..endByte (segments manager_resume ! i)}) =
        {0..totalSize manager_resume - 1}"
proof -
  have t: "totalSize manager_resume = 10" by (simp add: manager_resume_def ChunkManager_new_def options_10_def)
  have "{0..4} \<union> {5..9} = {0..(9::int)}" by auto
  then show ?thesis by (simp add: manager_resume_length numeral_2_eq_2 lessThan_Suc manager_resume_first manager_resume_second t Un_commute)
qed

lemma manager_resume_bytes: "\<forall>i<length (segments manager_resume).
        0 \<le> downloadedBytes (segments manager_resume ! i) \<and>
        downloadedBytes (segments manager_resume ! i) \<le> fullSize (segments manager_resume ! i)"
  by (simp add: manager_resume_length numeral_2_eq_2 less_Suc_eq manager_resume_first manager_resume_second fullSize_def)


lemma manager_resume_saved: "saveProgress 0 (manager_resume, disk_10) = (Returned, manager_resume, disk_resume)"
proof -
  have "resumeDownloads manager_resume"
    by (simp add: manager_resume_def ChunkManager_new_def options_10_def)
  then show ?thesis
    unfolding disk_resume_def
    by (simp add: saveProgress_def ControlFile_save_def mkdir_def disk_10_def)
qed


theorem save_then_resume_witness:
  "resumeDownloads manager_resume \<and> 1 \<le> totalSize manager_resume
   \<and> saveProgress 0 (manager_resume, disk_10) = (Returned, manager_resume, disk_resume)
   \<and> opt_resumeDownloads options_10 \<and> opt_totalSize options_10 = totalSize manager_resume
   \<and> (\<exists>cm' d'. initialize 1 (ChunkManager_new options_10, disk_resume) = Some (Returned, cm', d')
         \<and> length (segments cm') = 2
         \<and> downloadedBytes (segments cm' ! 0) = 5 \<and> status (segments cm' ! 0) = Completed
         \<and> downloadedBytes (segments cm' ! Suc 0) = 2 \<and> status (segments cm' ! Suc 0) = Pending)"
proof -
  have h1: "resumeDownloads manager_resume"
    by (simp add: manager_resume_def ChunkManager_new_def options_10_def)
  have h2: "1 \<le> totalSize manager_resume"
    by (simp add: manager_resume_def ChunkManager_new_def options_10_def)
  have h8: "opt_resumeDownloads options_10" by (simp add: options_10_def)
  have h9: "opt_totalSize options_10 = totalSize manager_resume"
    by (simp add: manager_resume_def ChunkManager_new_def)
  from save_then_resume[OF h1 h2 manager_resume_ranges manager_resume_disjoint manager_resume_cover manager_resume_bytes manager_resume_saved h8 h9, of 1] obtain cm' d' where
    init: "initialize 1 (ChunkManager_new options_10, disk_resume) = Some (Returned, cm', d')"
    and len: "length (segments cm') = length (segments manager_resume)"
    and each: "\<forall>i<length (segments manager_resume).
          index (segments cm' ! i) = index (segments manager_resume ! i)
        \<and> startByte (segments cm' ! i) = startByte (segments manager_resume ! i)
        \<and> endByte (segments cm' ! i) = endByte (segments manager_resume ! i)
        \<and> downloadedBytes (segments cm' ! i) = downloadedBytes (segments manager_resume ! i)
        \<and> status (segments cm' ! i) =
            (if downloadedBytes (segments manager_resume ! i) = fullSize (segments manager_resume ! i)
             then Completed else Pending)
        \<and> status (segments cm' ! i) \<noteq> Downloading"
    by (elim exE conjE)
  have i0: "0 < length (segments manager_resume)" and i1: "Suc 0 < length (segments manager_resume)"
    by (simp_all add: manager_resume_length)
  from each i0 have e0: "downloadedBytes (segments cm' ! 0) = 5 \<and> status (segments cm' ! 0) = Completed"
    by (simp add: manager_resume_first fullSize_def)
  from each i1 have e1: "downloadedBytes (segments cm' ! Suc 0) = 2 \<and> status (segments cm' ! Suc 0) = Pending"
    by (simp add: manager_resume_second fullSize_def)
  have "\<exists>cm' d'. initialize 1 (ChunkManager_new options_10, disk_resume) = Some (Returned, cm', d')
         \<and> length (segments cm') = 2
         \<and> downloadedBytes (segments cm' ! 0) = 5 \<and> status (segments cm' ! 0) = Completed
         \<and> downloadedBytes (segments cm' ! Suc 0) = 2 \<and> status (segments cm' ! Suc 0) = Pending"
    apply (rule exI[of _ cm'])
    apply (rule exI[of _ d'])
    using init len e0 e1 by (simp add: manager_resume_length)
  with h1 h2 manager_resume_saved h8 h9 show ?thesis by (intro conjI)
qed


section \<open>Cleanup and the end of a run\<close>

text \<open>
  \<open>cleanup\<close> leaves no open writer, and removes the control file exactly when it is
  called with \<open>success\<close> on a manager with resume enabled.
\<close>

lemma cleanup_effect:
  "writer (fst (cleanup success (cm, d))) \<noteq> Some True
   \<and> snd (cleanup success (cm, d)) =
       (if success \<and> resumeDownloads cm then ControlFile_delete d else d)
   \<and> \<not> ControlFile_exists (ControlFile_delete d)"
  by (cases d; cases "writer cm")
     (simp_all add: cleanup_def ControlFile_delete_def ControlFile_exists_def)

text \<open>The position kept by the task model is that of the segment \<open>getNextPendingSegment\<close> returns.\<close>

lemma pendingPosition_getNextPendingSegment:
  "map_option (\<lambda>pos. segments cm ! pos) (pendingPosition (segments cm)) =
     getNextPendingSegment cm"
proof -
  have "map_option (\<lambda>pos. segs ! pos) (pendingPosition segs) =
        find (\<lambda>s. status s = Pending) segs" for segs
    by (induction segs) (simp_all add: option.map_comp comp_def)
  then show ?thesis by (simp add: getNextPendingSegment_def)
qed

text \<open>The download phase over ranges never throws: a cancelled one returns like any other.\<close>

lemma downloadWithSegments_returns:
  "downloadWithSegments fuel now ws w = Some (out, w') \<Longrightarrow> out = Returned"
  by (auto simp: downloadWithSegments_def split: option.splits prod.splits)

lemma completed_run_deletes_sidecar:
  "runSummary (start 10 1 env_complete options_10 disk_fresh) =
     Some (Returned, TaskCompleted, False)"
  by code_simp

lemma failed_run_keeps_sidecar:
  "runSummary (start 10 1 env_failed options_10 disk_fresh) =
     Some (Threw NetworkError, TaskFailed, True)"
  by code_simp

lemma cancelled_single_run_deletes_sidecar:
  "runSummary (start 10 1 env_cancel_single options_10 disk_fresh) =
     Some (Returned, TaskCompleted, False)"
  by code_simp

text \<open>
  Claim C8 holds for \<open>cleanup\<close> itself, for a run that completes and for a run that
  fails, and says also that after a cancelled run the control file is left in place. It is
  not: when the user cancels while segment fetches are in flight, the loop of
  \<open>downloadWithSegments\<close> ends, the aborted fetches are swallowed, the \<open>try\<close> block
  reaches \<open>downloadSucceeded = true\<close> and \<open>cleanup(true)\<close> deletes the control file of a
  task whose status is cancelled.
\<close>

theorem cancelled_run_deletes_sidecar:
  "runSummary (start 10 1 env_cancelled options_10 disk_fresh) =
     Some (Returned, TaskCancelled, False)"
  by code_simp

end
